theory Spec2Isabelle
  imports Complex_Main
begin

section \<open>Python floats\<close>

text \<open>
  The handlers of \<^verbatim>\<open>main.py\<close> compute with Python floats: the seed records carry float
  literals, and \<^verbatim>\<open>create_order\<close> starts from \<^verbatim>\<open>0.0\<close>, adds with \<^verbatim>\<open>+=\<close> and ends with
  \<^verbatim>\<open>round(subtotal, 2)\<close>. A float is an IEEE-754 binary64 value: a finite one is
  the rational number it denotes, and every operation returns the exact result rounded to
  the nearest representable number, ties to the even significand. The sign of a zero is
  not represented (Python's \<^verbatim>\<open>==\<close> does not see it, and neither addition, multiplication
  nor rounding lets it reach a nonzero result).
\<close>

datatype pyfloat = Finite rat | PosInf | NegInf | NaN

text \<open>\<^verbatim>\<open>int.bit_length\<close>, for the non-negative integers it is used on.\<close>

function bit_length :: "int \<Rightarrow> int" where
  "bit_length n = (if n \<le> 0 then 0 else 1 + bit_length (n div 2))"
  by pat_completeness auto
termination
  by (relation "measure nat") auto

declare bit_length.simps [simp del]

definition pow2 :: "int \<Rightarrow> rat" where
  "pow2 e = (if 0 \<le> e then 2 ^ nat e else 1 / 2 ^ nat (- e))"

text \<open>
  The binary exponent of a positive rational: the \<open>k\<close> with \<open>2^k \<le> x < 2^(k+1)\<close>. The
  difference of the bit lengths of numerator and denominator is \<open>k\<close> or \<open>k + 1\<close>.
\<close>

definition floor_log2 :: "rat \<Rightarrow> int" where
  "floor_log2 x =
     (let (a, b) = quotient_of x;
          k = bit_length a - bit_length b
      in if pow2 k \<le> x then k else k - 1)"

definition round_half_even :: "rat \<Rightarrow> int" where
  "round_half_even x =
     (let f = \<lfloor>x\<rfloor>; d = x - of_int f
      in if d < 1 / 2 then f
         else if 1 / 2 < d then f + 1
         else if even f then f else f + 1)"

text \<open>
  Rounding a rational to binary64: 53 significant bits, the exponent of the last bit not
  below \<open>-1074\<close> (subnormal numbers), an infinity once the rounded magnitude reaches
  \<open>2^1024\<close>.
\<close>

definition rne :: "rat \<Rightarrow> pyfloat" where
  "rne x =
     (if x = 0 then Finite 0
      else
        let e = max (floor_log2 \<bar>x\<bar> - 52) (- 1074);
            y = of_int (round_half_even (x / pow2 e)) * pow2 e
        in if 1024 \<le> floor_log2 \<bar>y\<bar> then (if 0 < x then PosInf else NegInf)
           else Finite y)"

text \<open>The float a decimal literal denotes: \<^verbatim>\<open>2.99\<close> is \<open>float_lit 299 2\<close>.\<close>

definition float_lit :: "int \<Rightarrow> nat \<Rightarrow> pyfloat" where
  "float_lit digits places = rne (of_int digits / 10 ^ places)"

text \<open>\<^verbatim>\<open>a + b\<close> on floats.\<close>

fun fadd :: "pyfloat \<Rightarrow> pyfloat \<Rightarrow> pyfloat" where
  "fadd NaN _ = NaN"
| "fadd _ NaN = NaN"
| "fadd (Finite a) (Finite b) = rne (a + b)"
| "fadd PosInf NegInf = NaN"
| "fadd NegInf PosInf = NaN"
| "fadd PosInf _ = PosInf"
| "fadd _ PosInf = PosInf"
| "fadd NegInf _ = NegInf"
| "fadd _ NegInf = NegInf"

text \<open>\<^verbatim>\<open>a * b\<close> on floats.\<close>

definition inf_of_sign :: "bool \<Rightarrow> pyfloat" where
  "inf_of_sign positive = (if positive then PosInf else NegInf)"

fun fmul :: "pyfloat \<Rightarrow> pyfloat \<Rightarrow> pyfloat" where
  "fmul NaN _ = NaN"
| "fmul _ NaN = NaN"
| "fmul (Finite a) (Finite b) = rne (a * b)"
| "fmul (Finite a) PosInf = (if a = 0 then NaN else inf_of_sign (0 < a))"
| "fmul (Finite a) NegInf = (if a = 0 then NaN else inf_of_sign (a < 0))"
| "fmul PosInf (Finite b) = (if b = 0 then NaN else inf_of_sign (0 < b))"
| "fmul NegInf (Finite b) = (if b = 0 then NaN else inf_of_sign (b < 0))"
| "fmul PosInf PosInf = PosInf"
| "fmul PosInf NegInf = NegInf"
| "fmul NegInf PosInf = NegInf"
| "fmul NegInf NegInf = PosInf"

text \<open>
  \<^verbatim>\<open>round(x, ndigits)\<close> for a float \<open>x\<close> and \<open>ndigits \<ge> 0\<close>: infinities and NaN
  round to themselves, more than 323 digits leave \<open>x\<close> as it is, and otherwise the result
  is the float nearest to the decimal with \<open>ndigits\<close> places that is nearest to the exact
  value of \<open>x\<close> (ties to the even last digit).
\<close>

fun py_round :: "pyfloat \<Rightarrow> nat \<Rightarrow> pyfloat" where
  "py_round (Finite x) ndigits =
     (if 323 < ndigits then Finite x
      else rne (of_int (round_half_even (x * 10 ^ ndigits)) / 10 ^ ndigits))"
| "py_round x ndigits = x"

section \<open>Exceptions\<close>

text \<open>
  A text that may hold characters outside ASCII is the list of its code points: the
  messages of \<^verbatim>\<open>test_database\<close> hold such characters, and \<^verbatim>\<open>str(e)[:50]\<close> counts
  characters.
\<close>

type_synonym pystr = "nat list"

text \<open>
  An exception that the store handle raises, as far as a handler tells one from another:
  its class derives from \<^verbatim>\<open>Exception\<close>, so that \<^verbatim>\<open>except Exception\<close> catches it, or it
  derives from \<^verbatim>\<open>BaseException\<close> only (\<^verbatim>\<open>KeyboardInterrupt\<close>, \<^verbatim>\<open>SystemExit\<close>,
  \<^verbatim>\<open>GeneratorExit\<close>, \<^verbatim>\<open>asyncio.CancelledError\<close>), and no \<^verbatim>\<open>except Exception\<close> catches it.
  The argument is the text \<^verbatim>\<open>str(e)\<close>.
\<close>

datatype exn = Exception pystr | BaseException pystr

text \<open>
  What leaves a handler that raises: the \<^verbatim>\<open>HTTPException\<close> of the application with its
  status code and detail, the \<^verbatim>\<open>OverflowError\<close> of a conversion from int to float, or an
  exception of the store handle that no \<^verbatim>\<open>except\<close> clause of the handler caught.
\<close>

datatype error = HTTPException nat string | OverflowError | Propagated exn

section \<open>The product of a float and an int\<close>

text \<open>
  \<^verbatim>\<open>price * quantity\<close> for a float price and an int quantity: Python converts the int to a
  float and multiplies the two floats. The conversion rounds to the nearest float, ties to
  the even significand, and there is no conversion to an infinity: when the rounded
  magnitude reaches \<open>2^1024\<close> it raises \<^verbatim>\<open>OverflowError\<close>
  (\<^verbatim>\<open>int too large to convert to float\<close>).
\<close>

definition nearest_float :: "int \<Rightarrow> pyfloat" where
  "nearest_float i = rne (of_int i)"

definition fits_float :: "int \<Rightarrow> bool" where
  "fits_float i \<longleftrightarrow> nearest_float i \<noteq> PosInf \<and> nearest_float i \<noteq> NegInf"

definition float_of_int :: "int \<Rightarrow> error + pyfloat" where
  "float_of_int i = (if fits_float i then Inr (nearest_float i) else Inl OverflowError)"

definition float_times_int :: "pyfloat \<Rightarrow> int \<Rightarrow> error + pyfloat" where
  "float_times_int p q =
     (case float_of_int q of
        Inl e \<Rightarrow> Inl e
      | Inr f \<Rightarrow> Inr (fmul p f))"

section \<open>Data model\<close>

text \<open>
  Modelled from the spec: \<^verbatim>\<open>schemas.py\<close>, which declares \<^verbatim>\<open>Product\<close>, \<^verbatim>\<open>Order\<close> and
  \<^verbatim>\<open>OrderItem\<close>, is not among the sources. A product has the nine fields the spec lists,
  which are the keys of the seed records in \<^verbatim>\<open>main.py\<close>, with the types of the values
  there. Of an order item the handlers read \<^verbatim>\<open>price\<close> and \<^verbatim>\<open>quantity\<close>, a float and an
  int as in the spec's example \<^verbatim>\<open>{price: 2.99, quantity: 2}\<close>; of an order they read
  \<^verbatim>\<open>items\<close> and \<^verbatim>\<open>subtotal\<close>. Whatever else the schema declares (the product reference of
  an item among it) is the extension part of the records, so that every statement about
  \<open>'a OrderItem_scheme\<close> and \<open>('i, 'b) Order_scheme\<close> holds for any further fields.
\<close>

datatype pyvalue = VStr string | VFloat pyfloat | VInt int | VBool bool

type_synonym pydict = "(string \<times> pyvalue) list"

record Product =
  title :: string
  description :: string
  price :: pyfloat
  category :: string
  in_stock :: bool
  image_url :: string
  rating :: pyfloat
  brand :: string
  weight_grams :: int

text \<open>\<^verbatim>\<open>product.dict()\<close>\<close>

definition dict_Product :: "Product \<Rightarrow> pydict" where
  "dict_Product p =
     [(''title'', VStr (title p)),
      (''description'', VStr (description p)),
      (''price'', VFloat (Product.price p)),
      (''category'', VStr (category p)),
      (''in_stock'', VBool (in_stock p)),
      (''image_url'', VStr (image_url p)),
      (''rating'', VFloat (rating p)),
      (''brand'', VStr (brand p)),
      (''weight_grams'', VInt (weight_grams p))]"

record OrderItem =
  price :: pyfloat
  quantity :: int

record 'i Order =
  items :: "'i list"
  subtotal :: pyfloat

section \<open>The document store\<close>

text \<open>
  Modelled from the spec: \<^verbatim>\<open>database.py\<close>, which defines \<^verbatim>\<open>create_document\<close>,
  \<^verbatim>\<open>get_documents\<close> and \<^verbatim>\<open>db\<close>, is not among the sources. The spec has a document store
  holding named collections of records, \<^verbatim>\<open>create_document(collection, data)\<close> that inserts
  the record and returns the stored document including its assigned id, and
  \<^verbatim>\<open>get_documents(collection, filter, limit)\<close> that returns up to \<open>limit\<close> records matching
  an equality filter, in the store's default order. A collection is the list of its
  documents in insertion order, which is the default order; an id is the value of a
  counter. The two collections the handlers name, \<^verbatim>\<open>"product"\<close> and \<^verbatim>\<open>"order"\<close>, are
  the two fields of the store: the first holds the product dicts, the second the dicts of
  orders, for which the record of the order stands (no handler reads an order back).
\<close>

record 'a document =
  doc_id :: nat
  body :: 'a

record 'o store =
  product_coll :: "pydict document list"
  order_coll :: "'o document list"
  next_id :: nat

definition create_document_product :: "pydict \<Rightarrow> 'o store \<Rightarrow> pydict document \<times> 'o store" where
  "create_document_product data st =
     (let doc = \<lparr>doc_id = next_id st, body = data\<rparr>
      in (doc, st\<lparr>product_coll := product_coll st @ [doc], next_id := Suc (next_id st)\<rparr>))"

definition create_document_order :: "'o \<Rightarrow> 'o store \<Rightarrow> 'o document \<times> 'o store" where
  "create_document_order data st =
     (let doc = \<lparr>doc_id = next_id st, body = data\<rparr>
      in (doc, st\<lparr>order_coll := order_coll st @ [doc], next_id := Suc (next_id st)\<rparr>))"

text \<open>A record matches a filter when it has every key of the filter with the same value.\<close>

definition matches :: "pydict \<Rightarrow> pydict \<Rightarrow> bool" where
  "matches filter_q d = list_all (\<lambda>(k, v). map_of d k = Some v) filter_q"

definition get_documents_product :: "pydict \<Rightarrow> nat \<Rightarrow> 'o store \<Rightarrow> pydict document list" where
  "get_documents_product filter_q limit st =
     take limit (filter (\<lambda>doc. matches filter_q (body doc)) (product_coll st))"

section \<open>Request handlers\<close>

text \<open>
  A handler that may raise returns a value of \<open>error + 'a\<close>; one that reads or writes the
  store takes the store and, when it writes, returns it.
\<close>

subsection \<open>\<^verbatim>\<open>read_root\<close> and \<^verbatim>\<open>get_schema\<close>\<close>

definition read_root :: pydict where
  "read_root = [(''message'', VStr ''Chips Commerce Backend Running'')]"

definition get_schema :: pydict where
  "get_schema = [(''user'', VStr ''User''), (''product'', VStr ''Product''), (''order'', VStr ''Order'')]"

subsection \<open>\<^verbatim>\<open>list_products\<close> and \<^verbatim>\<open>create_product\<close>\<close>

text \<open>
  \<^verbatim>\<open>category: Optional[str] = None\<close>; the test \<^verbatim>\<open>if category\<close> fails for \<^verbatim>\<open>None\<close> and for
  the empty string.
\<close>

definition list_products :: "string option \<Rightarrow> 'o store \<Rightarrow> pydict document list" where
  "list_products category_param st =
     (let filter_q = (case category_param of
                        None \<Rightarrow> []
                      | Some c \<Rightarrow> if c \<noteq> [] then [(''category'', VStr c)] else [])
      in get_documents_product filter_q 100 st)"

definition create_product :: "Product \<Rightarrow> 'o store \<Rightarrow> pydict document \<times> 'o store" where
  "create_product product st = create_document_product (dict_Product product) st"

subsection \<open>\<^verbatim>\<open>seed_products\<close>\<close>

definition chips :: "pydict list" where
  "chips =
     [[(''title'', VStr ''Classic Salted Potato Chips''),
       (''description'', VStr ''Crispy, thin-cut potatoes with a perfect salty crunch.''),
       (''price'', VFloat (float_lit 299 2)),
       (''category'', VStr ''potato''),
       (''in_stock'', VBool True),
       (''image_url'', VStr ''https://images.unsplash.com/photo-1541592106381-b31e9677c0e5?w=800''),
       (''rating'', VFloat (float_lit 46 1)),
       (''brand'', VStr ''CrunchCraft''),
       (''weight_grams'', VInt 150)],
      [(''title'', VStr ''Spicy Tortilla Chips''),
       (''description'', VStr ''Stone-ground corn chips dusted with fiery chili and lime.''),
       (''price'', VFloat (float_lit 349 2)),
       (''category'', VStr ''tortilla''),
       (''in_stock'', VBool True),
       (''image_url'', VStr ''https://images.unsplash.com/photo-1604908176997-4316c288032e?w=800''),
       (''rating'', VFloat (float_lit 47 1)),
       (''brand'', VStr ''FuegoBite''),
       (''weight_grams'', VInt 170)],
      [(''title'', VStr ''Cheddar Ridges''),
       (''description'', VStr ''Ridged chips blasted with bold cheddar cheese flavor.''),
       (''price'', VFloat (float_lit 319 2)),
       (''category'', VStr ''potato''),
       (''in_stock'', VBool True),
       (''image_url'', VStr ''https://images.unsplash.com/photo-1613478223719-3c84c68ffd4a?w=800''),
       (''rating'', VFloat (float_lit 44 1)),
       (''brand'', VStr ''RidgeRush''),
       (''weight_grams'', VInt 160)],
      [(''title'', VStr ''Sea Salt Kettle Chips''),
       (''description'', VStr ''Thick-cut kettle chips cooked in small batches for extra crunch.''),
       (''price'', VFloat (float_lit 399 2)),
       (''category'', VStr ''kettle''),
       (''in_stock'', VBool True),
       (''image_url'', VStr ''https://images.unsplash.com/photo-1585238342028-4bbc3e2f5b42?w=800''),
       (''rating'', VFloat (float_lit 48 1)),
       (''brand'', VStr ''KettleCo''),
       (''weight_grams'', VInt 200)]]"

text \<open>The loop \<^verbatim>\<open>for c in chips: await create_document("product", c); inserted += 1\<close>.\<close>

fun seed_loop :: "pydict list \<Rightarrow> int \<Rightarrow> 'o store \<Rightarrow> int \<times> 'o store" where
  "seed_loop [] inserted st = (inserted, st)"
| "seed_loop (c # cs) inserted st =
     seed_loop cs (inserted + 1) (snd (create_document_product c st))"

definition seed_products :: "'o store \<Rightarrow> pydict \<times> 'o store" where
  "seed_products st =
     (let existing = get_documents_product [] 1 st
      in if existing \<noteq> [] then
           ([(''inserted'', VInt 0), (''message'', VStr ''Products already seeded'')], st)
         else
           let (inserted, st') = seed_loop chips 0 st
           in ([(''inserted'', VInt inserted)], st'))"

subsection \<open>\<^verbatim>\<open>create_order\<close>\<close>

text \<open>
  The loop \<^verbatim>\<open>for item in order.items: subtotal += item.price * item.quantity\<close>, the
  local variable \<^verbatim>\<open>subtotal\<close> being \<open>acc\<close>. When a product raises, the loop ends there
  and the exception leaves it.
\<close>

fun subtotal_loop :: "pyfloat \<Rightarrow> 'a OrderItem_scheme list \<Rightarrow> error + pyfloat" where
  "subtotal_loop acc [] = Inr acc"
| "subtotal_loop acc (item # rest) =
     (case float_times_int (price item) (quantity item) of
        Inl e \<Rightarrow> Inl e
      | Inr p \<Rightarrow> subtotal_loop (fadd acc p) rest)"

text \<open>
  The handler: nothing is written to the store before \<^verbatim>\<open>create_document\<close> is called, so
  an exception raised before that leaves the store as it was.
\<close>

definition create_order ::
  "('a OrderItem_scheme, 'b) Order_scheme
     \<Rightarrow> ('a OrderItem_scheme, 'b) Order_scheme store
     \<Rightarrow> (error + ('a OrderItem_scheme, 'b) Order_scheme document)
          \<times> ('a OrderItem_scheme, 'b) Order_scheme store" where
  "create_order order st =
     (if items order = [] then
        (Inl (HTTPException 400 ''Order must contain at least one item''), st)
      else
        case subtotal_loop (Finite 0) (items order) of
          Inl e \<Rightarrow> (Inl e, st)
        | Inr acc \<Rightarrow>
            let order' = order\<lparr>subtotal := py_round acc 2\<rparr>;
                (doc, st') = create_document_order order' st
            in (Inr doc, st'))"

subsection \<open>\<^verbatim>\<open>test_database\<close>\<close>

text \<open>The texts of the diagnostic, with the code points of their markers.\<close>

definition ascii :: "string \<Rightarrow> pystr" where
  "ascii s = map of_char s"

definition check_mark :: pystr where
  "check_mark = [9989]"

definition cross_mark :: pystr where
  "cross_mark = [10060]"

definition warning_sign :: pystr where
  "warning_sign = [9888, 65039]"

text \<open>
  \<^verbatim>\<open>db\<close> comes from \<^verbatim>\<open>database.py\<close> and is \<^verbatim>\<open>None\<close> or a handle of the store. What the
  handle does when \<^verbatim>\<open>test_database\<close> touches it is the input of the model: a call returns
  a value or raises an exception, of either kind. The attribute \<^verbatim>\<open>name\<close> may be absent
  (\<open>None\<close>, when \<^verbatim>\<open>hasattr\<close> is false), present, or raising when read.
\<close>

datatype 'a outcome = Returns 'a | Raises exn

record db_handle =
  name_attr :: "pystr outcome option"
  list_collection_names :: "pystr list outcome"




record diagnostic =
  backend :: pystr
  database :: pystr
  database_url :: "pystr option"
  database_name :: "pystr option"
  connection_status :: pystr
  collections :: "pystr list"

text \<open>
  The inner \<^verbatim>\<open>try\<close> with its \<^verbatim>\<open>except Exception as e\<close>: the response as far as it was
  written, and the exception that left the statement, if one did. The clause catches an
  exception that derives from \<^verbatim>\<open>Exception\<close>, and no other.
\<close>

definition list_collections :: "db_handle \<Rightarrow> diagnostic \<Rightarrow> diagnostic \<times> exn option" where
  "list_collections db response =
     (case list_collection_names db of
        Returns cs \<Rightarrow>
          (response\<lparr>collections := take 10 cs,
                    database := check_mark @ ascii '' Connected & Working''\<rparr>,
           None)
      | Raises (Exception m) \<Rightarrow>
          (response\<lparr>database := warning_sign @ ascii ''  Connected but Error: '' @ take 50 m\<rparr>,
           None)
      | Raises (BaseException m) \<Rightarrow> (response, Some (BaseException m)))"

text \<open>
  The body of the outer \<^verbatim>\<open>try\<close>: the response as far as it was written, and the exception
  that left the body, if one did.
\<close>

definition inspect_db :: "db_handle option \<Rightarrow> diagnostic \<Rightarrow> diagnostic \<times> exn option" where
  "inspect_db db response =
     (case db of
        None \<Rightarrow>
          (response\<lparr>database := warning_sign @ ascii ''  Available but not initialized''\<rparr>, None)
      | Some h \<Rightarrow>
          let r1 = response\<lparr>database := check_mark @ ascii '' Available'',
                            database_url := Some (check_mark @ ascii '' Configured'')\<rparr>
          in (case name_attr h of
                Some (Raises e) \<Rightarrow> (r1, Some e)
              | Some (Returns n) \<Rightarrow>
                  list_collections h
                    (r1\<lparr>database_name := Some n, connection_status := ascii ''Connected''\<rparr>)
              | None \<Rightarrow>
                  list_collections h
                    (r1\<lparr>database_name := Some (check_mark @ ascii '' Connected''),
                        connection_status := ascii ''Connected''\<rparr>)))"

text \<open>\<^verbatim>\<open>os.getenv(name)\<close> is \<^verbatim>\<open>None\<close> or a string, and true in a test when not empty.\<close>

definition env_set :: "(string \<Rightarrow> string option) \<Rightarrow> string \<Rightarrow> pystr" where
  "env_set getenv name =
     (case getenv name of
        None \<Rightarrow> cross_mark @ ascii '' Not Set''
      | Some v \<Rightarrow> if v \<noteq> [] then check_mark @ ascii '' Set'' else cross_mark @ ascii '' Not Set'')"

text \<open>The two assignments after the outer \<^verbatim>\<open>try\<close>.\<close>

definition report_env :: "(string \<Rightarrow> string option) \<Rightarrow> diagnostic \<Rightarrow> diagnostic" where
  "report_env getenv response =
     response\<lparr>database_url := Some (env_set getenv ''DATABASE_URL''),
              database_name := Some (env_set getenv ''DATABASE_NAME'')\<rparr>"

text \<open>
  The handler. The outer \<^verbatim>\<open>except Exception as e\<close> catches what derives from
  \<^verbatim>\<open>Exception\<close>; any other exception that left the body of the \<^verbatim>\<open>try\<close> leaves the
  handler.
\<close>

definition test_database ::
  "db_handle option \<Rightarrow> (string \<Rightarrow> string option) \<Rightarrow> error + diagnostic" where
  "test_database db getenv =
     (let response = \<lparr>backend = check_mark @ ascii '' Running'',
                      database = cross_mark @ ascii '' Not Available'',
                      database_url = None,
                      database_name = None,
                      connection_status = ascii ''Not Connected'',
                      collections = []\<rparr>;
          (r1, raised) = inspect_db db response
      in case raised of
           None \<Rightarrow> Inr (report_env getenv r1)
         | Some (Exception m) \<Rightarrow>
             Inr (report_env getenv
                    (r1\<lparr>database := cross_mark @ ascii '' Error: '' @ take 50 m\<rparr>))
         | Some (BaseException m) \<Rightarrow> Inl (Propagated (BaseException m)))"

subsection \<open>The routes\<close>

text \<open>
  The requests the decorators \<^verbatim>\<open>@app.get\<close> and \<^verbatim>\<open>@app.post\<close> route, each to its handler,
  and what the handler returns or raises.
\<close>

datatype 'o request =
    ReadRoot
  | GetSchema
  | ListProducts "string option"
  | CreateProduct Product
  | SeedProducts
  | CreateOrder 'o
  | TestDatabase

datatype 'o response =
    Dict pydict
  | Documents "pydict document list"
  | ProductDocument "pydict document"
  | OrderDocument "'o document"
  | Diagnostic diagnostic

definition app ::
  "db_handle option \<Rightarrow> (string \<Rightarrow> string option)
     \<Rightarrow> ('a OrderItem_scheme, 'b) Order_scheme request
     \<Rightarrow> ('a OrderItem_scheme, 'b) Order_scheme store
     \<Rightarrow> (error + ('a OrderItem_scheme, 'b) Order_scheme response)
          \<times> ('a OrderItem_scheme, 'b) Order_scheme store" where
  "app db getenv req st =
     (case req of
        ReadRoot \<Rightarrow> (Inr (Dict read_root), st)
      | GetSchema \<Rightarrow> (Inr (Dict get_schema), st)
      | ListProducts c \<Rightarrow> (Inr (Documents (list_products c st)), st)
      | CreateProduct p \<Rightarrow> (let (doc, st') = create_product p st in (Inr (ProductDocument doc), st'))
      | SeedProducts \<Rightarrow> (let (r, st') = seed_products st in (Inr (Dict r), st'))
      | CreateOrder order \<Rightarrow>
          (case create_order order st of
             (Inl e, st') \<Rightarrow> (Inl e, st')
           | (Inr doc, st') \<Rightarrow> (Inr (OrderDocument doc), st'))
      | TestDatabase \<Rightarrow>
          (case test_database db getenv of
             Inl e \<Rightarrow> (Inl e, st)
           | Inr r \<Rightarrow> (Inr (Diagnostic r), st)))"

section \<open>Example inputs\<close>

text \<open>Concrete stores, products and orders, on which the properties below are instantiated.\<close>

definition empty_store :: "OrderItem Order store" where
  "empty_store = \<lparr>product_coll = [], order_coll = [], next_id = 0\<rparr>"

definition sample_product :: Product where
  "sample_product =
     \<lparr>title = ''Classic Salted Potato Chips'',
      description = ''Crispy, thin-cut potatoes with a perfect salty crunch.'',
      price = float_lit 299 2,
      category = ''potato'',
      in_stock = True,
      image_url = [],
      rating = float_lit 46 1,
      brand = ''CrunchCraft'',
      weight_grams = 150\<rparr>"

text \<open>The store after a hundred products were created in the empty store.\<close>

definition full_store :: "OrderItem Order store" where
  "full_store =
     \<lparr>product_coll = map (\<lambda>i. \<lparr>doc_id = i, body = dict_Product sample_product\<rparr>) [0..<100],
      order_coll = [],
      next_id = 100\<rparr>"

definition mixed_store :: "OrderItem Order store" where
  "mixed_store =
     \<lparr>product_coll =
        [\<lparr>doc_id = 0, body = dict_Product sample_product\<rparr>,
         \<lparr>doc_id = 1, body = dict_Product (sample_product\<lparr>category := ''tortilla''\<rparr>)\<rparr>],
      order_coll = [],
      next_id = 2\<rparr>"

text \<open>The order of the spec's example, with a subtotal of \<^verbatim>\<open>0.01\<close> submitted.\<close>

definition example_order :: "OrderItem Order" where
  "example_order =
     \<lparr>items = [\<lparr>price = float_lit 299 2, quantity = 2\<rparr>, \<lparr>price = float_lit 349 2, quantity = 1\<rparr>],
      subtotal = float_lit 1 2\<rparr>"

definition empty_order :: "OrderItem Order" where
  "empty_order = \<lparr>items = [], subtotal = float_lit 947 2\<rparr>"

text \<open>
  An order with a quantity beyond the range of the floats: \<open>2^1024\<close> is the least power of
  two that no float reaches.
\<close>

definition huge_quantity :: int where
  "huge_quantity = 2 ^ 1024"

definition overflow_order :: "OrderItem Order" where
  "overflow_order =
     \<lparr>items = [\<lparr>price = float_lit 299 2, quantity = huge_quantity\<rparr>], subtotal = Finite 0\<rparr>"





section \<open>Properties\<close>

subsection \<open>Rounding to an integer\<close>

lemma round_half_even_cases:
  obtains d where "0 \<le> d" and "d < 1" and "x = of_int \<lfloor>x\<rfloor> + d"
    and "round_half_even x =
           (if d < 1 / 2 then \<lfloor>x\<rfloor>
            else if 1 / 2 < d then \<lfloor>x\<rfloor> + 1
            else if even \<lfloor>x\<rfloor> then \<lfloor>x\<rfloor> else \<lfloor>x\<rfloor> + 1)"
proof
  show "0 \<le> x - of_int \<lfloor>x\<rfloor>" and "x - of_int \<lfloor>x\<rfloor> < 1"
    by linarith+
  show "x = of_int \<lfloor>x\<rfloor> + (x - of_int \<lfloor>x\<rfloor>)"
    by simp
  show "round_half_even x =
           (if x - of_int \<lfloor>x\<rfloor> < 1 / 2 then \<lfloor>x\<rfloor>
            else if 1 / 2 < x - of_int \<lfloor>x\<rfloor> then \<lfloor>x\<rfloor> + 1
            else if even \<lfloor>x\<rfloor> then \<lfloor>x\<rfloor> else \<lfloor>x\<rfloor> + 1)"
    by (simp add: round_half_even_def Let_def)
qed

text \<open>The integer that \<open>round_half_even\<close> returns is a nearest one.\<close>

lemma round_half_even_near: "\<bar>x - of_int (round_half_even x)\<bar> \<le> 1 / 2"
proof -
  obtain d where d: "0 \<le> d" "d < 1" and x: "x = of_int \<lfloor>x\<rfloor> + d"
    and r: "round_half_even x =
           (if d < 1 / 2 then \<lfloor>x\<rfloor>
            else if 1 / 2 < d then \<lfloor>x\<rfloor> + 1
            else if even \<lfloor>x\<rfloor> then \<lfloor>x\<rfloor> else \<lfloor>x\<rfloor> + 1)"
    by (rule round_half_even_cases)
  have "x - of_int (round_half_even x) = d \<or> x - of_int (round_half_even x) = d - 1"
    using x by (auto simp: r)
  moreover have "1 / 2 < d" if "x - of_int (round_half_even x) = d - 1" "d \<noteq> 1 / 2"
    using that x by (auto simp: r split: if_splits)
  moreover have "d < 1 / 2" if "x - of_int (round_half_even x) = d" "d \<noteq> 1 / 2"
    using that x by (auto simp: r split: if_splits)
  ultimately show ?thesis
    using d by (cases "d = 1 / 2") (auto simp: abs_if)
qed

text \<open>Of the two nearest integers of a number half-way between them, it is the even one.\<close>

lemma round_half_even_tie:
  assumes "\<bar>x - of_int (round_half_even x)\<bar> = 1 / 2"
  shows "even (round_half_even x)"
proof -
  obtain d where d: "0 \<le> d" "d < 1" and x: "x = of_int \<lfloor>x\<rfloor> + d"
    and r: "round_half_even x =
           (if d < 1 / 2 then \<lfloor>x\<rfloor>
            else if 1 / 2 < d then \<lfloor>x\<rfloor> + 1
            else if even \<lfloor>x\<rfloor> then \<lfloor>x\<rfloor> else \<lfloor>x\<rfloor> + 1)"
    by (rule round_half_even_cases)
  have "d = 1 / 2"
  proof (rule ccontr)
    assume n: "d \<noteq> 1 / 2"
    show False
    proof (cases "d < 1 / 2")
      case True
      then have "x - of_int (round_half_even x) = d"
        using x by (simp add: r)
      then show False
        using assms True d by (simp add: abs_if)
    next
      case False
      then have "1 / 2 < d"
        using n by simp
      then have "x - of_int (round_half_even x) = d - 1"
        using x by (simp add: r)
      then show False
        using assms \<open>1 / 2 < d\<close> d by (simp add: abs_if split: if_splits)
    qed
  qed
  then show ?thesis
    by (simp add: r)
qed

lemma round_half_even_int: "round_half_even (of_int k) = k"
  by (simp add: round_half_even_def)

text \<open>
  \<^verbatim>\<open>round(x, 2)\<close> of a finite float is the float that a literal with two decimal places
  denotes, the digits of the literal being the integer nearest to a hundred times \<open>x\<close>.
\<close>

lemma py_round_two_places:
  "py_round (Finite x) 2 = float_lit (round_half_even (x * 100)) 2"
  by (simp add: float_lit_def)

subsection \<open>Integers beyond the range of the floats\<close>

lemma bit_length_1: "bit_length 1 = 1"
  by (simp add: bit_length.simps)

lemma bit_length_pow2: "bit_length (2 ^ n) = int n + 1"
proof (induction n)
  case 0
  then show ?case by (simp add: bit_length_1)
next
  case (Suc n)
  have "bit_length (2 ^ Suc n) = 1 + bit_length (2 ^ Suc n div 2)"
    by (subst bit_length.simps) simp
  then show ?case
    by (simp add: Suc.IH)
qed

lemma quotient_of_pow2: "quotient_of (2 ^ n) = (2 ^ n, 1)"
  using quotient_of_int [of "2 ^ n"] by (simp add: Rat.of_int_def)

lemma pow2_nat: "pow2 (int n) = 2 ^ n"
  by (simp add: pow2_def)

lemma floor_log2_pow2: "floor_log2 (2 ^ n) = int n"
  by (simp add: floor_log2_def quotient_of_pow2 bit_length_pow2 bit_length_1 pow2_nat)

text \<open>
  A positive number that needs no rounding, and whose binary exponent is 1024 or more,
  is rounded to the infinity.
\<close>

lemma rne_exact_overflow:
  assumes x: "0 < x" and e: "floor_log2 x - 52 = e" and lo: "- 1074 \<le> e"
    and k: "x = of_int k * pow2 e" and p: "pow2 e \<noteq> 0" and big: "1024 \<le> floor_log2 x"
  shows "rne x = PosInf"
proof -
  have ax: "\<bar>x\<bar> = x"
    using x by simp
  have m: "max (floor_log2 \<bar>x\<bar> - 52) (- 1074) = e"
    using e lo by (simp add: ax)
  have q: "x / pow2 e = of_int k"
    using k p by simp
  have y: "of_int (round_half_even (x / pow2 e)) * pow2 e = x"
    by (simp only: q round_half_even_int k [symmetric])
  have "rne x = (if 1024 \<le> floor_log2 \<bar>x\<bar> then PosInf else Finite x)"
    using x unfolding rne_def Let_def m y by simp
  then show ?thesis
    using big by (simp add: ax)
qed

lemma rne_pow2_overflow:
  assumes "1024 \<le> n"
  shows "rne (2 ^ n) = PosInf"
proof (rule rne_exact_overflow [where e = "int (n - 52)" and k = "2 ^ 52"])
  show "(0::rat) < 2 ^ n"
    by simp
  show "floor_log2 (2 ^ n) - 52 = int (n - 52)"
    using assms by (simp add: floor_log2_pow2)
  show "- 1074 \<le> int (n - 52)"
    by simp
  have "(2::rat) ^ n = 2 ^ (52 + (n - 52))"
    using assms by simp
  also have "\<dots> = 2 ^ 52 * 2 ^ (n - 52)"
    by (rule power_add)
  finally show "(2::rat) ^ n = of_int (2 ^ 52) * pow2 (int (n - 52))"
    by (simp add: pow2_nat)
  show "pow2 (int (n - 52)) \<noteq> 0"
    by (simp add: pow2_nat)
  show "1024 \<le> floor_log2 (2 ^ n)"
    using assms by (simp add: floor_log2_pow2)
qed

lemma nearest_float_huge: "nearest_float huge_quantity = PosInf"
proof -
  have "(of_int huge_quantity :: rat) = 2 ^ 1024"
    unfolding huge_quantity_def by (simp only: of_int_power of_int_numeral)
  then show ?thesis
    using rne_pow2_overflow [of 1024] by (simp only: nearest_float_def)
qed

lemma fits_float_huge: "\<not> fits_float huge_quantity"
  by (simp add: fits_float_def nearest_float_huge)

lemma float_of_int_huge: "float_of_int huge_quantity = Inl OverflowError"
  by (simp add: float_of_int_def fits_float_huge)

lemma fits_float_1: "fits_float 1"
  by code_simp

lemma fits_float_2: "fits_float 2"
  by code_simp

subsection \<open>Integers within the range of the floats\<close>

lemma bit_length_bounds:
  "0 < a \<Longrightarrow> 1 \<le> bit_length a \<and> 2 ^ nat (bit_length a - 1) \<le> a \<and> a < 2 ^ nat (bit_length a)"
proof (induction a rule: bit_length.induct)
  case (1 n)
  show ?case
  proof (cases "n = 1")
    case True
    then show ?thesis
      by (simp add: bit_length_1)
  next
    case False
    then have pos: "0 < n div 2"
      using 1 by simp
    have n: "\<not> n \<le> 0"
      using 1 by simp
    define b where "b = bit_length (n div 2)"
    have ih: "1 \<le> b" "2 ^ nat (b - 1) \<le> n div 2" "n div 2 < 2 ^ nat b"
      using "1.IH" [OF n pos] by (simp_all add: b_def)
    have bl: "bit_length n = 1 + b"
      using n by (subst bit_length.simps) (simp add: b_def)
    have s: "nat b = Suc (nat (b - 1))"
      using ih(1) by simp
    have lo: "(2::int) ^ nat b \<le> n"
    proof -
      have "(2::int) ^ nat b = 2 * 2 ^ nat (b - 1)"
        by (subst s) simp
      also have "\<dots> \<le> 2 * (n div 2)"
        using ih(2) by simp
      also have "\<dots> \<le> n"
        by simp
      finally show ?thesis .
    qed
    have hi: "n < 2 ^ nat (1 + b)"
    proof -
      have "n < 2 * (n div 2) + 2"
        by simp
      also have "\<dots> \<le> 2 * 2 ^ nat b"
        using ih(3) by simp
      also have "\<dots> = 2 ^ Suc (nat b)"
        by simp
      also have "Suc (nat b) = nat (1 + b)"
        using ih(1) by simp
      finally show ?thesis .
    qed
    show ?thesis
      using ih(1) lo hi by (simp add: bl)
  qed
qed

lemma floor_log2_of_int:
  assumes "0 < a"
  shows "floor_log2 (of_int a) = bit_length a - 1"
proof -
  have q: "quotient_of (of_int a) = (a, 1)"
    using quotient_of_int [of a] by (simp add: Rat.of_int_def)
  have b: "1 \<le> bit_length a" "2 ^ nat (bit_length a - 1) \<le> a"
    using bit_length_bounds [OF assms] by simp_all
  have "(2::rat) ^ nat (bit_length a - 1) = of_int (2 ^ nat (bit_length a - 1))"
    by simp
  also have "\<dots> \<le> of_int a"
    using b(2) by (simp only: of_int_le_iff)
  finally have "pow2 (bit_length a - 1) \<le> of_int a"
    using b(1) by (simp add: pow2_def)
  then show ?thesis
    by (simp add: floor_log2_def q bit_length_1)
qed

text \<open>A number that needs no rounding, and is in the range of the floats, is a float.\<close>

lemma rne_exact:
  assumes x: "x \<noteq> 0" and e: "max (floor_log2 \<bar>x\<bar> - 52) (- 1074) = e"
    and k: "x = of_int k * pow2 e" and p: "pow2 e \<noteq> 0" and small: "floor_log2 \<bar>x\<bar> < 1024"
  shows "rne x = Finite x"
proof -
  have q: "x / pow2 e = of_int k"
    using k p by simp
  have y: "of_int (round_half_even (x / pow2 e)) * pow2 e = x"
    by (simp only: q round_half_even_int k [symmetric])
  have "rne x = (if 1024 \<le> floor_log2 \<bar>x\<bar> then (if 0 < x then PosInf else NegInf) else Finite x)"
    using x unfolding rne_def Let_def e y by simp
  then show ?thesis
    using small by simp
qed

text \<open>
  An int below \<open>2^53\<close> in magnitude is converted to the float that denotes it, so every
  such quantity converts.
\<close>

lemma nearest_float_exact:
  assumes "\<bar>i\<bar> < 2 ^ 53"
  shows "nearest_float i = Finite (of_int i)"
proof (cases "i = 0")
  case True
  then show ?thesis
    by (simp add: nearest_float_def rne_def)
next
  case False
  define a where "a = \<bar>i\<bar>"
  define b where "b = bit_length a"
  have a: "0 < a" "a < 2 ^ 53"
    using False assms by (simp_all add: a_def)
  have ax: "\<bar>of_int i :: rat\<bar> = of_int a"
    by (simp add: a_def)
  have bb: "1 \<le> b" "2 ^ nat (b - 1) \<le> a"
    using bit_length_bounds [OF a(1)] by (simp_all add: b_def)
  have fl: "floor_log2 \<bar>of_int i :: rat\<bar> = b - 1"
    by (simp only: ax floor_log2_of_int [OF a(1)] b_def)
  have "(2::int) ^ nat (b - 1) < 2 ^ 53"
    using bb(2) a(2) by (rule le_less_trans)
  then have "nat (b - 1) < 53"
    by (simp only: power_strict_increasing_iff [of 2] one_less_numeral_iff semiring_norm)
  then have b53: "b \<le> 53"
    by simp
  define m where "m = nat (53 - b)"
  have e: "max (floor_log2 \<bar>of_int i :: rat\<bar> - 52) (- 1074) = - int m"
    using bb(1) b53 by (simp add: fl m_def)
  have p: "pow2 (- int m) = 1 / 2 ^ m"
    by (simp add: pow2_def)
  have k: "(of_int i :: rat) = of_int (i * 2 ^ m) * pow2 (- int m)"
    by (simp add: p)
  have "rne (of_int i) = Finite (of_int i)"
  proof (rule rne_exact [OF _ e k])
    show "(of_int i :: rat) \<noteq> 0"
      using False by simp
    show "pow2 (- int m) \<noteq> 0"
      by (simp add: p)
    show "floor_log2 \<bar>of_int i :: rat\<bar> < 1024"
      using b53 by (simp add: fl)
  qed
  then show ?thesis
    by (simp add: nearest_float_def)
qed

lemma fits_float_small: "\<bar>i\<bar> < 2 ^ 53 \<Longrightarrow> fits_float i"
  by (simp add: fits_float_def nearest_float_exact)

subsection \<open>The subtotal loop\<close>

text \<open>
  When every quantity converts to a float, the loop returns the sum of the products,
  added in the order of the items; when one does not, it raises \<^verbatim>\<open>OverflowError\<close>.
\<close>

lemma subtotal_loop_fits:
  "list_all (\<lambda>item. fits_float (quantity item)) xs \<Longrightarrow>
   subtotal_loop s xs
     = Inr (foldl fadd s (map (\<lambda>item. fmul (price item) (nearest_float (quantity item))) xs))"
  by (induction xs arbitrary: s) (simp_all add: float_times_int_def float_of_int_def)

lemma subtotal_loop_overflow:
  "\<not> list_all (\<lambda>item. fits_float (quantity item)) xs \<Longrightarrow> subtotal_loop s xs = Inl OverflowError"
proof (induction xs arbitrary: s)
  case Nil
  then show ?case by simp
next
  case (Cons item rest)
  show ?case
  proof (cases "fits_float (quantity item)")
    case True
    then have "\<not> list_all (\<lambda>item. fits_float (quantity item)) rest"
      using Cons.prems by simp
    then show ?thesis
      using True by (simp add: Cons.IH float_times_int_def float_of_int_def)
  next
    case False
    then show ?thesis
      by (simp add: float_times_int_def float_of_int_def)
  qed
qed

lemma create_order_cases:
  "create_order order st =
     (if items order = [] then
        (Inl (HTTPException 400 ''Order must contain at least one item''), st)
      else if list_all (\<lambda>item. fits_float (quantity item)) (items order) then
        (Inr \<lparr>doc_id = next_id st,
              body = order\<lparr>subtotal :=
                       py_round (foldl fadd (Finite 0)
                         (map (\<lambda>item. fmul (price item) (nearest_float (quantity item)))
                            (items order))) 2\<rparr>\<rparr>,
         st\<lparr>order_coll := order_coll st
              @ [\<lparr>doc_id = next_id st,
                  body = order\<lparr>subtotal :=
                           py_round (foldl fadd (Finite 0)
                             (map (\<lambda>item. fmul (price item) (nearest_float (quantity item)))
                                (items order))) 2\<rparr>\<rparr>],
            next_id := Suc (next_id st)\<rparr>)
      else (Inl OverflowError, st))"
  by (simp add: create_order_def create_document_order_def Let_def subtotal_loop_fits
      subtotal_loop_overflow)

lemma example_subtotal:
  "py_round (fadd (fadd (Finite 0) (fmul (float_lit 299 2) (nearest_float 2)))
       (fmul (float_lit 349 2) (nearest_float 1))) 2 = float_lit 947 2"
  by code_simp

subsection \<open>The store\<close>

lemma matches_empty: "matches [] d"
  by (simp add: matches_def)

lemma matches_category:
  "matches [(''category'', VStr c)] d \<longleftrightarrow> map_of d ''category'' = Some (VStr c)"
  by (simp add: matches_def)

lemma map_of_dict_Product_category:
  "map_of (dict_Product p) ''category'' = Some (VStr (category p))"
  by (simp add: dict_Product_def)

lemma get_documents_product_all:
  "get_documents_product [] limit st = take limit (product_coll st)"
  by (simp add: get_documents_product_def matches_empty)

lemma filter_matching_all:
  "(\<And>d. d \<in> set ds \<Longrightarrow> matches f (body d)) \<Longrightarrow> filter (\<lambda>doc. matches f (body doc)) ds = ds"
  by (induction ds) simp_all

lemma map_body_map2:
  "length is = length cs \<Longrightarrow> map body (map2 (\<lambda>i c. \<lparr>doc_id = i, body = c\<rparr>) is cs) = cs"
  by (induction "is" cs rule: list_induct2) simp_all

lemma length_chips: "length chips = 4"
  by (simp add: chips_def)

text \<open>The seeding loop appends one document for each record, with consecutive ids.\<close>

lemma seed_loop_result:
  "seed_loop cs n st =
     (n + int (length cs),
      st\<lparr>product_coll := product_coll st
           @ map2 (\<lambda>i c. \<lparr>doc_id = i, body = c\<rparr>) [next_id st ..< next_id st + length cs] cs,
         next_id := next_id st + length cs\<rparr>)"
proof (induction cs arbitrary: n st)
  case Nil
  then show ?case by simp
next
  case (Cons c cs)
  have "[next_id st ..< next_id st + length (c # cs)]
          = next_id st # [Suc (next_id st) ..< Suc (next_id st) + length cs]"
    by (subst upt_rec) simp
  then show ?case
    by (simp add: Cons.IH create_document_product_def Let_def)
qed

lemma create_product_repeated:
  "((\<lambda>st. snd (create_product p st)) ^^ n) st =
     st\<lparr>product_coll := product_coll st
          @ map (\<lambda>i. \<lparr>doc_id = i, body = dict_Product p\<rparr>) [next_id st ..< next_id st + n],
        next_id := next_id st + n\<rparr>"
  by (induction n) (simp_all add: create_product_def create_document_product_def Let_def)

lemma full_store_reachable:
  "((\<lambda>st. snd (create_product sample_product st)) ^^ 100) empty_store = full_store"
  by (simp add: create_product_repeated full_store_def empty_store_def)

subsection \<open>Orders\<close>

text \<open>
  C1, as amended. For every order whose list of items is not empty and whose quantities
  all convert to a float, whatever subtotal the client submitted, \<open>create_order\<close>
  returns a document and appends that document to the order collection. Its subtotal is
  the sum, over the items in their order and starting from \<^verbatim>\<open>0.0\<close>, of price times
  quantity, rounded to two decimal places: when the sum is the finite number \<open>x\<close>, the
  subtotal is the float that the literal with the digits \<open>n\<close> and two decimal places
  denotes, \<open>n\<close> being the integer nearest to \<open>100 * x\<close>, the even one of the two when
  \<open>100 * x\<close> is half-way between two integers; when the sum is an infinity or not a
  number, the subtotal is the sum.
\<close>

theorem create_order_subtotal:
  assumes "items order \<noteq> []"
    and "list_all (\<lambda>item. fits_float (quantity item)) (items order)"
  shows "\<exists>doc. create_order (order\<lparr>subtotal := submitted\<rparr>) st
               = (Inr doc, st\<lparr>order_coll := order_coll st @ [doc], next_id := Suc (next_id st)\<rparr>)
           \<and> (case foldl fadd (Finite 0)
                     (map (\<lambda>item. fmul (price item) (nearest_float (quantity item)))
                        (items order)) of
                Finite x \<Rightarrow>
                  \<exists>n. subtotal (body doc) = float_lit n 2
                     \<and> \<bar>x * 100 - of_int n\<bar> \<le> 1 / 2
                     \<and> (\<bar>x * 100 - of_int n\<bar> = 1 / 2 \<longrightarrow> even n)
              | PosInf \<Rightarrow> subtotal (body doc) = PosInf
              | NegInf \<Rightarrow> subtotal (body doc) = NegInf
              | NaN \<Rightarrow> subtotal (body doc) = NaN)"
proof -
  define total where "total = foldl fadd (Finite 0)
    (map (\<lambda>item. fmul (price item) (nearest_float (quantity item))) (items order))"
  define doc where "doc = \<lparr>doc_id = next_id st, body = order\<lparr>subtotal := py_round total 2\<rparr>\<rparr>"
  have run: "create_order (order\<lparr>subtotal := submitted\<rparr>) st
      = (Inr doc, st\<lparr>order_coll := order_coll st @ [doc], next_id := Suc (next_id st)\<rparr>)"
    using assms by (simp add: create_order_cases doc_def total_def)
  have sub: "subtotal (body doc) = py_round total 2"
    by (simp add: doc_def)
  have "case total of
          Finite x \<Rightarrow>
            \<exists>n. subtotal (body doc) = float_lit n 2
               \<and> \<bar>x * 100 - of_int n\<bar> \<le> 1 / 2
               \<and> (\<bar>x * 100 - of_int n\<bar> = 1 / 2 \<longrightarrow> even n)
        | PosInf \<Rightarrow> subtotal (body doc) = PosInf
        | NegInf \<Rightarrow> subtotal (body doc) = NegInf
        | NaN \<Rightarrow> subtotal (body doc) = NaN"
  proof (cases total)
    case (Finite x)
    have "subtotal (body doc) = float_lit (round_half_even (x * 100)) 2"
      by (simp only: sub Finite py_round_two_places)
    moreover have "\<bar>x * 100 - of_int (round_half_even (x * 100))\<bar> \<le> 1 / 2"
      by (rule round_half_even_near)
    moreover have "\<bar>x * 100 - of_int (round_half_even (x * 100))\<bar> = 1 / 2
        \<longrightarrow> even (round_half_even (x * 100))"
      using round_half_even_tie [of "x * 100"] by blast
    ultimately have "\<exists>n. subtotal (body doc) = float_lit n 2
               \<and> \<bar>x * 100 - of_int n\<bar> \<le> 1 / 2
               \<and> (\<bar>x * 100 - of_int n\<bar> = 1 / 2 \<longrightarrow> even n)"
      by blast
    then show ?thesis
      by (simp only: Finite pyfloat.case)
  qed (simp_all add: sub)
  then show ?thesis
    using run unfolding total_def by blast
qed

theorem create_order_subtotal_witness:
  "items example_order \<noteq> []
   \<and> list_all (\<lambda>item. fits_float (quantity item)) (items example_order)
   \<and> (\<exists>doc. create_order (example_order\<lparr>subtotal := Finite 1000\<rparr>) empty_store
               = (Inr doc, empty_store\<lparr>order_coll := order_coll empty_store @ [doc],
                                      next_id := Suc (next_id empty_store)\<rparr>)
           \<and> (case foldl fadd (Finite 0)
                     (map (\<lambda>item. fmul (price item) (nearest_float (quantity item)))
                        (items example_order)) of
                Finite x \<Rightarrow>
                  \<exists>n. subtotal (body doc) = float_lit n 2
                     \<and> \<bar>x * 100 - of_int n\<bar> \<le> 1 / 2
                     \<and> (\<bar>x * 100 - of_int n\<bar> = 1 / 2 \<longrightarrow> even n)
              | PosInf \<Rightarrow> subtotal (body doc) = PosInf
              | NegInf \<Rightarrow> subtotal (body doc) = NegInf
              | NaN \<Rightarrow> subtotal (body doc) = NaN))"
proof -
  have h: "items example_order \<noteq> []"
    by (simp add: example_order_def)
  have f: "list_all (\<lambda>item. fits_float (quantity item)) (items example_order)"
    by (simp add: example_order_def fits_float_1 fits_float_2)
  show ?thesis
    using h f create_order_subtotal [OF h f, of "Finite 1000" empty_store]
    by blast
qed

text \<open>
  C1, as stated, fails: an order whose single item has the quantity \<open>2^1024\<close> has a list
  of items that is not empty, and \<open>create_order\<close> raises \<^verbatim>\<open>OverflowError\<close> when it
  multiplies the price by that quantity; it returns no document and stores none.
\<close>

theorem create_order_subtotal_counterexample:
  "items overflow_order \<noteq> []
   \<and> create_order overflow_order empty_store = (Inl OverflowError, empty_store)
   \<and> order_coll (snd (create_order overflow_order empty_store)) = []"
  by (simp add: create_order_def overflow_order_def float_times_int_def float_of_int_huge
      empty_store_def)

text \<open>
  C2. \<open>create_order\<close> raises the \<^verbatim>\<open>HTTPException\<close> with status 400 and the fixed detail
  exactly when the list of items is empty, and it raises an \<^verbatim>\<open>HTTPException\<close> of any
  kind only then. Whenever it raises, the store is as it was: no document is stored.
  What it raises is that \<^verbatim>\<open>HTTPException\<close> or the \<^verbatim>\<open>OverflowError\<close> of a product, which
  is not an error of the application. No route raises any other \<^verbatim>\<open>HTTPException\<close>: a
  request answered with one is an order without items, the status is 400 and the detail
  the fixed one.
\<close>

theorem create_order_error:
  "(fst (create_order order st)
        = Inl (HTTPException 400 ''Order must contain at least one item'')
      \<longleftrightarrow> items order = [])
   \<and> ((\<exists>code detail. fst (create_order order st) = Inl (HTTPException code detail))
        \<longleftrightarrow> items order = [])
   \<and> (\<forall>e. fst (create_order order st) = Inl e \<longrightarrow> snd (create_order order st) = st)
   \<and> (\<forall>e. fst (create_order order st) = Inl e
         \<longrightarrow> e = HTTPException 400 ''Order must contain at least one item''
             \<or> e = OverflowError)
   \<and> (\<forall>req code detail.
         fst (app db getenv req st) = Inl (HTTPException code detail)
         \<longrightarrow> code = 400 \<and> detail = ''Order must contain at least one item''
             \<and> (\<exists>order'. req = CreateOrder order' \<and> items order' = []))"
proof (intro conjI allI impI)
  show "fst (create_order order st)
          = Inl (HTTPException 400 ''Order must contain at least one item'')
        \<longleftrightarrow> items order = []"
    by (simp add: create_order_cases)
  show "(\<exists>code detail. fst (create_order order st) = Inl (HTTPException code detail))
        \<longleftrightarrow> items order = []"
    by (simp add: create_order_cases)
next
  fix e
  assume "fst (create_order order st) = Inl e"
  then show "snd (create_order order st) = st"
    by (simp add: create_order_cases split: if_splits)
next
  fix e
  assume "fst (create_order order st) = Inl e"
  then show "e = HTTPException 400 ''Order must contain at least one item'' \<or> e = OverflowError"
    by (auto simp: create_order_cases split: if_splits)
next
  fix req code detail
  assume raised: "fst (app db getenv req st) = Inl (HTTPException code detail)"
  have t: "test_database db getenv \<noteq> Inl (HTTPException code detail)"
    by (auto simp: test_database_def Let_def split: prod.splits option.splits exn.splits)
  have "code = 400 \<and> detail = ''Order must contain at least one item''
      \<and> (\<exists>order'. req = CreateOrder order' \<and> items order' = [])"
  proof (cases req)
    case (CreateOrder order')
    then have "fst (create_order order' st) = Inl (HTTPException code detail)"
      using raised by (auto simp: app_def split: prod.splits sum.splits)
    then show ?thesis
      using CreateOrder by (simp add: create_order_cases split: if_splits)
  next
    case TestDatabase
    then show ?thesis
      using raised t by (auto simp: app_def split: sum.splits)
  qed (use raised in \<open>auto simp: app_def split: prod.splits\<close>)
  then show "code = 400" and "detail = ''Order must contain at least one item''"
    and "\<exists>order'. req = CreateOrder order' \<and> items order' = []"
    by simp_all
qed

theorem create_order_error_witness:
  "items empty_order = []
   \<and> fst (create_order empty_order mixed_store)
       = Inl (HTTPException 400 ''Order must contain at least one item'')
   \<and> snd (create_order empty_order mixed_store) = mixed_store
   \<and> fst (app None (\<lambda>name. None) (CreateOrder empty_order) mixed_store)
       = Inl (HTTPException 400 ''Order must contain at least one item'')"
proof -
  note t = create_order_error [where order = empty_order and st = mixed_store
        and db = None and getenv = "\<lambda>name. None"]
  have h: "items empty_order = []"
    by (simp add: empty_order_def)
  have a: "fst (create_order empty_order mixed_store)
       = Inl (HTTPException 400 ''Order must contain at least one item'')"
    using h t [THEN conjunct1] by blast
  have b: "snd (create_order empty_order mixed_store) = mixed_store"
    using a t [THEN conjunct2, THEN conjunct2, THEN conjunct1] by blast
  have c: "fst (app None (\<lambda>name. None) (CreateOrder empty_order) mixed_store)
       = Inl (HTTPException 400 ''Order must contain at least one item'')"
    using a by (auto simp: app_def split: prod.splits sum.splits)
  show ?thesis
    using h a b c by blast
qed

text \<open>
  C5. For the order with the items \<^verbatim>\<open>{price: 2.99, quantity: 2}\<close> and
  \<^verbatim>\<open>{price: 3.49, quantity: 1}\<close>, with float prices and int quantities, the document
  that \<open>create_order\<close> stores and returns has the subtotal \<^verbatim>\<open>9.47\<close>, whatever subtotal
  was submitted.
\<close>

theorem create_order_example:
  "create_order
     \<lparr>items = [\<lparr>price = float_lit 299 2, quantity = 2\<rparr>, \<lparr>price = float_lit 349 2, quantity = 1\<rparr>],
      subtotal = submitted\<rparr> st
   = (let doc = \<lparr>doc_id = next_id st,
                 body = \<lparr>items = [\<lparr>price = float_lit 299 2, quantity = 2\<rparr>,
                                  \<lparr>price = float_lit 349 2, quantity = 1\<rparr>],
                         subtotal = float_lit 947 2\<rparr>\<rparr>
      in (Inr doc, st\<lparr>order_coll := order_coll st @ [doc], next_id := Suc (next_id st)\<rparr>))"
  by (simp add: create_order_cases fits_float_1 fits_float_2 Let_def example_subtotal)

text \<open>
  C8. For every order whose list of items is not empty, a document that \<open>create_order\<close>
  stores is the one it returns, appended to the order collection, and it is the submitted
  order with its subtotal replaced and nothing else changed: the list of items, every
  field of every item in it, and every further field of the order are as submitted.
  A document is stored when every quantity converts to a float; otherwise
  \<open>create_order\<close> raises \<^verbatim>\<open>OverflowError\<close> and the store is as it was.
\<close>

theorem create_order_frame:
  assumes "items order \<noteq> []"
  shows "(\<forall>doc st'. create_order order st = (Inr doc, st') \<longrightarrow>
            st' = st\<lparr>order_coll := order_coll st @ [doc], next_id := Suc (next_id st)\<rparr>
            \<and> body doc = order\<lparr>subtotal := subtotal (body doc)\<rparr>
            \<and> items (body doc) = items order
            \<and> Order.more (body doc) = Order.more order)
         \<and> (list_all (\<lambda>item. fits_float (quantity item)) (items order) \<longrightarrow>
              (\<exists>doc st'. create_order order st = (Inr doc, st')))
         \<and> (\<not> list_all (\<lambda>item. fits_float (quantity item)) (items order) \<longrightarrow>
              create_order order st = (Inl OverflowError, st))"
  using assms by (auto simp: create_order_cases split: if_splits)

theorem create_order_frame_witness:
  "items example_order \<noteq> []
   \<and> list_all (\<lambda>item. fits_float (quantity item)) (items example_order)
   \<and> (\<exists>doc. create_order example_order empty_store
               = (Inr doc, empty_store\<lparr>order_coll := order_coll empty_store @ [doc],
                                      next_id := Suc (next_id empty_store)\<rparr>)
           \<and> body doc = example_order\<lparr>subtotal := subtotal (body doc)\<rparr>
           \<and> items (body doc) = items example_order
           \<and> Order.more (body doc) = Order.more example_order)"
proof -
  have h: "items example_order \<noteq> []"
    by (simp add: example_order_def)
  have f: "list_all (\<lambda>item. fits_float (quantity item)) (items example_order)"
    by (simp add: example_order_def fits_float_1 fits_float_2)
  note t = create_order_frame [OF h, of empty_store]
  obtain doc st' where r: "create_order example_order empty_store = (Inr doc, st')"
    using f t [THEN conjunct2, THEN conjunct1] by blast
  have "st' = empty_store\<lparr>order_coll := order_coll empty_store @ [doc],
                          next_id := Suc (next_id empty_store)\<rparr>
      \<and> body doc = example_order\<lparr>subtotal := subtotal (body doc)\<rparr>
      \<and> items (body doc) = items example_order
      \<and> Order.more (body doc) = Order.more example_order"
    using r t [THEN conjunct1] by blast
  then show ?thesis
    using h f r by blast
qed

subsection \<open>Products\<close>

text \<open>
  C3. When the product collection is empty, \<open>seed_products\<close> answers \<^verbatim>\<open>inserted: 4\<close> and
  leaves in the product collection exactly four documents, whose records are the four
  fixed ones in their order, the order collection being untouched; a second call then
  answers \<^verbatim>\<open>inserted: 0\<close> and changes nothing. When the product collection is not empty,
  \<open>seed_products\<close> answers \<^verbatim>\<open>inserted: 0\<close> with its message and changes nothing.
\<close>

theorem seed_products_once:
  "(product_coll st = [] \<longrightarrow>
      fst (seed_products st) = [(''inserted'', VInt 4)]
      \<and> map body (product_coll (snd (seed_products st))) = chips
      \<and> length (product_coll (snd (seed_products st))) = 4
      \<and> order_coll (snd (seed_products st)) = order_coll st
      \<and> seed_products (snd (seed_products st))
          = ([(''inserted'', VInt 0), (''message'', VStr ''Products already seeded'')],
             snd (seed_products st)))
   \<and> (product_coll st \<noteq> [] \<longrightarrow>
        seed_products st
          = ([(''inserted'', VInt 0), (''message'', VStr ''Products already seeded'')], st))"
proof (intro conjI impI)
  assume nonempty: "product_coll st \<noteq> []"
  then show "seed_products st
          = ([(''inserted'', VInt 0), (''message'', VStr ''Products already seeded'')], st)"
    by (cases "product_coll st") (simp_all add: seed_products_def get_documents_product_all)
next
  assume empty: "product_coll st = []"
  have run: "seed_products st = ([(''inserted'', VInt 4)],
      st\<lparr>product_coll := map2 (\<lambda>i c. \<lparr>doc_id = i, body = c\<rparr>) [next_id st ..< next_id st + 4] chips,
         next_id := next_id st + 4\<rparr>)"
    using empty
    by (simp add: seed_products_def get_documents_product_all seed_loop_result length_chips)
  show "fst (seed_products st) = [(''inserted'', VInt 4)]"
    by (simp add: run)
  show "map body (product_coll (snd (seed_products st))) = chips"
    using map_body_map2 [of "[next_id st ..< next_id st + 4]" chips]
    by (simp add: run length_chips)
  show "length (product_coll (snd (seed_products st))) = 4"
    by (simp add: run length_chips)
  show "order_coll (snd (seed_products st)) = order_coll st"
    by (simp add: run)
  have "product_coll (snd (seed_products st)) \<noteq> []"
    using length_chips by (auto simp: run)
  then show "seed_products (snd (seed_products st))
          = ([(''inserted'', VInt 0), (''message'', VStr ''Products already seeded'')],
             snd (seed_products st))"
    by (cases "product_coll (snd (seed_products st))")
      (simp_all add: seed_products_def get_documents_product_all)
qed

theorem seed_products_once_witness:
  "product_coll empty_store = []
   \<and> fst (seed_products empty_store) = [(''inserted'', VInt 4)]
   \<and> map body (product_coll (snd (seed_products empty_store))) = chips
   \<and> fst (seed_products (snd (seed_products empty_store))) =
       [(''inserted'', VInt 0), (''message'', VStr ''Products already seeded'')]
   \<and> product_coll mixed_store \<noteq> []
   \<and> seed_products mixed_store
       = ([(''inserted'', VInt 0), (''message'', VStr ''Products already seeded'')], mixed_store)"
proof -
  have e: "product_coll empty_store = []"
    by (simp add: empty_store_def)
  have m: "product_coll mixed_store \<noteq> []"
    by (simp add: mixed_store_def)
  show ?thesis
    using e m seed_products_once [of empty_store] seed_products_once [of mixed_store]
    by simp
qed

text \<open>
  C4. For every category that is not the empty string, every document that
  \<open>list_products\<close> returns for it is a document of the product collection whose
  \<^verbatim>\<open>category\<close> is that string; and whatever the category parameter, \<open>list_products\<close>
  returns at most 100 documents.
\<close>

theorem list_products_filter:
  "(c \<noteq> [] \<longrightarrow>
      (\<forall>doc \<in> set (list_products (Some c) st).
          doc \<in> set (product_coll st) \<and> map_of (body doc) ''category'' = Some (VStr c)))
   \<and> length (list_products category_param st) \<le> 100"
proof (intro conjI impI ballI)
  show "length (list_products category_param st) \<le> 100"
    by (simp add: list_products_def get_documents_product_def)
next
  fix doc
  assume "c \<noteq> []" and "doc \<in> set (list_products (Some c) st)"
  then have "doc \<in> set (filter (\<lambda>doc. matches [(''category'', VStr c)] (body doc))
                           (product_coll st))"
    by (auto simp: list_products_def get_documents_product_def dest: in_set_takeD)
  then show "doc \<in> set (product_coll st)" and "map_of (body doc) ''category'' = Some (VStr c)"
    by (simp_all add: matches_category)
qed

theorem list_products_filter_witness:
  "''potato'' \<noteq> []
   \<and> \<lparr>doc_id = 0, body = dict_Product sample_product\<rparr>
       \<in> set (list_products (Some ''potato'') mixed_store)
   \<and> \<lparr>doc_id = 0, body = dict_Product sample_product\<rparr> \<in> set (product_coll mixed_store)
   \<and> map_of (body \<lparr>doc_id = 0, body = dict_Product sample_product\<rparr>) ''category''
       = Some (VStr ''potato'')
   \<and> length (list_products (Some ''potato'') mixed_store) \<le> 100"
proof -
  have n: "''potato'' \<noteq> []"
    by simp
  have i: "\<lparr>doc_id = 0, body = dict_Product sample_product\<rparr>
       \<in> set (list_products (Some ''potato'') mixed_store)"
    by (simp add: list_products_def get_documents_product_def mixed_store_def matches_category
        map_of_dict_Product_category sample_product_def)
  show ?thesis
    using n i list_products_filter [of "''potato''" mixed_store "Some ''potato''"]
    by blast
qed

text \<open>
  C6. \<open>create_product\<close> appends to the product collection one document, which it
  returns: its id is the one the store assigns, and its record has the nine fields of the
  submitted product, each with the submitted value.
\<close>

theorem create_product_verbatim:
  "create_product product st
     = (let doc = \<lparr>doc_id = next_id st, body = dict_Product product\<rparr>
        in (doc, st\<lparr>product_coll := product_coll st @ [doc], next_id := Suc (next_id st)\<rparr>))
   \<and> map_of (body (fst (create_product product st)))
       = [''title'' \<mapsto> VStr (title product),
          ''description'' \<mapsto> VStr (description product),
          ''price'' \<mapsto> VFloat (Product.price product),
          ''category'' \<mapsto> VStr (category product),
          ''in_stock'' \<mapsto> VBool (in_stock product),
          ''image_url'' \<mapsto> VStr (image_url product),
          ''rating'' \<mapsto> VFloat (rating product),
          ''brand'' \<mapsto> VStr (brand product),
          ''weight_grams'' \<mapsto> VInt (weight_grams product)]"
  by (auto simp add: create_product_def create_document_product_def Let_def dict_Product_def)

text \<open>
  C7, as amended. If the same call of \<open>list_products\<close> (with no category, or with the
  category of the product) returned fewer than 100 documents before, then after
  \<open>create_product\<close> it returns the document just created.
\<close>

theorem create_product_then_list:
  assumes "category_param = None \<or> category_param = Some (category product)"
    and "length (list_products category_param st) < 100"
  shows "fst (create_product product st)
           \<in> set (list_products category_param (snd (create_product product st)))"
proof -
  define filter_q where "filter_q = (case category_param of
                        None \<Rightarrow> []
                      | Some c \<Rightarrow> if c \<noteq> [] then [(''category'', VStr c)] else [])"
  define doc where "doc = \<lparr>doc_id = next_id st, body = dict_Product product\<rparr>"
  define old where "old = filter (\<lambda>doc. matches filter_q (body doc)) (product_coll st)"
  have m: "matches filter_q (dict_Product product)"
    using assms(1)
    by (auto simp: filter_q_def matches_empty matches_category map_of_dict_Product_category)
  have "length (take 100 old) < 100"
    using assms(2) by (simp add: list_products_def get_documents_product_def filter_q_def old_def)
  then have short: "length old < 100"
    by simp
  have "list_products category_param (snd (create_product product st)) = take 100 (old @ [doc])"
    using m by (simp add: list_products_def get_documents_product_def create_product_def
        create_document_product_def Let_def filter_q_def old_def doc_def)
  also have "\<dots> = old @ [doc]"
    using short by simp
  finally show ?thesis
    by (simp add: create_product_def create_document_product_def Let_def doc_def)
qed

theorem create_product_then_list_witness:
  "(Some ''potato'' = None \<or> Some ''potato'' = Some (category sample_product))
   \<and> length (list_products (Some ''potato'') mixed_store) < 100
   \<and> fst (create_product sample_product mixed_store)
       \<in> set (list_products (Some ''potato'') (snd (create_product sample_product mixed_store)))"
proof -
  have c: "Some ''potato'' = None \<or> Some ''potato'' = Some (category sample_product)"
    by (simp add: sample_product_def)
  have "length (list_products (Some ''potato'') mixed_store) \<le> length (product_coll mixed_store)"
    by (simp add: list_products_def get_documents_product_def min.coboundedI1)
  then have l: "length (list_products (Some ''potato'') mixed_store) < 100"
    by (simp add: mixed_store_def)
  show ?thesis
    using c l create_product_then_list [OF c l]
    by blast
qed

text \<open>
  C7, as stated, fails: in the store that holds a hundred products, the document that
  \<open>create_product\<close> returns is in the result of \<open>list_products\<close> neither without a
  category nor with the category of the product, since the hundred earlier documents
  fill the limit.
\<close>

theorem create_product_then_list_counterexample:
  "fst (create_product sample_product full_store)
     \<notin> set (list_products None (snd (create_product sample_product full_store)))
   \<and> fst (create_product sample_product full_store)
       \<notin> set (list_products (Some (category sample_product))
                 (snd (create_product sample_product full_store)))"
proof -
  let ?old = "map (\<lambda>i. \<lparr>doc_id = i, body = dict_Product sample_product\<rparr>) [0..<100]"
  let ?new = "\<lparr>doc_id = 100, body = dict_Product sample_product\<rparr>"
  have c: "category sample_product = ''potato''"
    by (simp add: sample_product_def)
  have new: "fst (create_product sample_product full_store) = ?new"
    by (simp add: create_product_def create_document_product_def Let_def full_store_def)
  have coll: "product_coll (snd (create_product sample_product full_store)) = ?old @ [?new]"
    by (simp add: create_product_def create_document_product_def Let_def full_store_def)
  have f: "filter (\<lambda>doc. matches [(''category'', VStr ''potato'')] (body doc)) (?old @ [?new])
             = ?old @ [?new]"
    by (rule filter_matching_all) (auto simp: matches_category map_of_dict_Product_category c)
  have l1: "list_products None (snd (create_product sample_product full_store)) = ?old"
    by (simp add: list_products_def get_documents_product_def matches_empty coll)
  have l2: "list_products (Some (category sample_product))
              (snd (create_product sample_product full_store)) = ?old"
    by (simp add: list_products_def get_documents_product_def coll c f
        del: filter_append filter.simps)
  have "?new \<notin> set ?old"
    by auto
  then show ?thesis
    by (simp only: new l1 l2 simp_thms)
qed

text \<open>
  C9. With the empty string as category, \<open>list_products\<close> does what it does with no
  category: no filter is applied, and the first 100 documents of the product collection
  are returned, whatever their category.
\<close>

theorem list_products_empty_category:
  "list_products (Some []) st = list_products None st
   \<and> list_products (Some []) st = take 100 (product_coll st)"
  by (simp add: list_products_def get_documents_product_all)

subsection \<open>The diagnostic endpoint\<close>




end
